theory Spec2Isabelle
  imports Main "HOL-Library.Sublist" "HOL-Library.Char_ord" "HOL-Library.List_Lexorder"
begin

section \<open>The jaide command line front end (jaide\_click.py)\<close>

text \<open>
  The script is Python 2: a \<open>str\<close> is a byte string, modelled as \<open>string\<close>.
  The device-session provider \<open>wrap.open_connection\<close>, \<open>color_utils.secho\<close>, the click
  library and \<open>os.path\<close> are not part of the file; the provider is a parameter of the
  handlers, the library functions are written out from their definitions.
\<close>

subsection \<open>Python string methods\<close>

text \<open>\<open>str.split(sep)\<close> for a non-empty separator: cut at every occurrence of \<open>sep\<close>,
  scanning from the left, occurrences not overlapping. The accumulator holds the
  current piece, reversed.\<close>

function split_aux :: "string \<Rightarrow> string \<Rightarrow> string \<Rightarrow> string list" where
  "split_aux sep acc [] = [rev acc]"
| "split_aux sep acc (c # cs) =
     (if sep \<noteq> [] \<and> prefix sep (c # cs)
      then rev acc # split_aux sep [] (drop (length sep) (c # cs))
      else split_aux sep (c # acc) cs)"
  by pat_completeness auto
termination
  by (relation "measure (\<lambda>(sep, acc, s). length s)") auto

definition split_str :: "string \<Rightarrow> string \<Rightarrow> string list" where
  "split_str sep s = split_aux sep [] s"

text \<open>The whitespace of \<open>str.strip()\<close>: space, tab, line feed, vertical tab, form feed,
  carriage return.\<close>

definition is_space :: "char \<Rightarrow> bool" where
  "is_space c = (c \<in> set [CHR '' '', CHR 0x09, CHR 0x0A, CHR 0x0B, CHR 0x0C, CHR 0x0D])"

definition strip :: "string \<Rightarrow> string" where
  "strip s = rev (dropWhile is_space (rev (dropWhile is_space s)))"

text \<open>\<open>str.lower()\<close> on a byte string: the letters A to Z become a to z.\<close>

definition lower_char :: "char \<Rightarrow> char" where
  "lower_char c =
     (case map_of (zip ''ABCDEFGHIJKLMNOPQRSTUVWXYZ'' ''abcdefghijklmnopqrstuvwxyz'') c of
        Some d \<Rightarrow> d
      | None \<Rightarrow> c)"

definition lower :: "string \<Rightarrow> string" where
  "lower s = map lower_char s"

text \<open>\<open>sep.join(xs)\<close>.\<close>

fun join :: "string \<Rightarrow> string list \<Rightarrow> string" where
  "join sep [] = []"
| "join sep [x] = x"
| "join sep (x # y # ys) = x @ sep @ join sep (y # ys)"

subsection \<open>os.path (posixpath)\<close>

text \<open>\<open>posixpath.split(p)\<close>: with \<open>i = p.rfind('/') + 1\<close> the head is \<open>p[:i]\<close> and the tail
  \<open>p[i:]\<close>; trailing slashes are stripped from the head unless it consists of slashes
  only.\<close>

definition rfind_slash_Suc :: "string \<Rightarrow> nat" where
  "rfind_slash_Suc p = length p - length (takeWhile (\<lambda>c. c \<noteq> CHR ''/'') (rev p))"

definition rstrip_slash :: "string \<Rightarrow> string" where
  "rstrip_slash s = rev (dropWhile (\<lambda>c. c = CHR ''/'') (rev s))"

definition path_split :: "string \<Rightarrow> string \<times> string" where
  "path_split p =
     (let i = rfind_slash_Suc p; head = take i p; tail = drop i p
      in (if head \<noteq> [] \<and> head \<noteq> replicate (length head) (CHR ''/'')
          then rstrip_slash head else head, tail))"

text \<open>\<open>posixpath.join(a, b)\<close> for two components.\<close>

definition path_join :: "string \<Rightarrow> string \<Rightarrow> string" where
  "path_join a b =
     (if prefix ''/'' b then b
      else if a = [] \<or> last a = CHR ''/'' then a @ b
      else a @ ''/'' @ b)"

subsection \<open>The world the script acts on\<close>

datatype py_error =
    IndexError
  | BadParameter string
  | UsageError string

text \<open>What reaches the terminal: \<open>click.echo(s)\<close>, or \<open>secho(s)\<close> and \<open>secho(s, 'error')\<close> of
  color\_utils, which print \<open>s\<close> in a colour.\<close>

datatype console_event = Echo string | Secho string "string option"

text \<open>The arguments of one \<open>wrap.open_connection\<close> call, in the order the handlers pass
  them; \<open>oc_function\<close> names the \<open>wrap\<close> function handed over, \<open>oc_args\<close> is its argument
  list (\<open>None\<close> for device\_info).\<close>

datatype wrap_function =
    WCommit | WCompare | WPull | WPush | WCommand | WDeviceInfo | WDiffConfig
  | WHealthCheck | WInterfaceErrors | WShell

datatype pyval = PStr string | PBool bool | PInt int | PNone

record oc_call =
  oc_ip :: string
  oc_username :: string
  oc_password :: string
  oc_function :: wrap_function
  oc_args :: "pyval list option"
  oc_write :: "(string \<times> string) option"
  oc_connect_timeout :: int
  oc_session_timeout :: int
  oc_port :: int

text \<open>What a handler does with the pool and the provider, in program order.\<close>

datatype event =
    PoolCreate nat
  | ApplyAsync oc_call
  | DirectCall oc_call
  | PoolClose
  | PoolJoin

text \<open>\<open>open_error path\<close> is \<open>None\<close> when \<open>open(path, 'a+b')\<close> succeeds, and otherwise
  the text \<open>str(e)\<close> of the IOError it raises; \<open>writes\<close> are the appends made to
  files, \<open>console\<close> the terminal output, \<open>trace\<close> the pool and provider operations.\<close>

record world =
  open_error :: "string \<Rightarrow> string option"
  writes :: "(string \<times> string) list"
  console :: "console_event list"
  trace :: "event list"

type_synonym 'a result = "(py_error \<times> world) + 'a"

subsection \<open>write\_out\<close>

text \<open>\<open>output.split('device: ')[1].split('\n')[0].strip()\<close>: the index \<open>[1]\<close> raises
  IndexError when the split has a single piece; \<open>[0]\<close> always exists.\<close>

definition extract_ip :: "string \<Rightarrow> string option" where
  "extract_ip output =
     (case split_str ''device: '' output of
        _ # t # _ \<Rightarrow> Some (strip (hd (split_str [CHR 0x0A] t)))
      | _ \<Rightarrow> None)"

text \<open>The destination file: in mode m or multiple the ip is put in front of the file
  name.\<close>

definition target_file :: "string \<Rightarrow> string \<Rightarrow> string \<Rightarrow> string" where
  "target_file mode dest_file ip =
     (if mode \<in> set [''m'', ''multiple'']
      then path_join (fst (path_split dest_file)) (ip @ ''_'' @ snd (path_split dest_file))
      else dest_file)"

text \<open>\<open>to_file\<close> is \<open>None\<close> or the pair (mode, destination); unpacking \<open>None\<close> is the
  TypeError that sends the output to the terminal.\<close>

definition write_out :: "(string \<times> string) option \<times> string \<Rightarrow> world \<Rightarrow> world result" where
  "write_out input w =
     (case input of (to_file, output) \<Rightarrow>
        (case to_file of
           None \<Rightarrow> Inr (w\<lparr>console := console w @ [Echo output]\<rparr>)
         | Some (mode, dest_file0) \<Rightarrow>
             (case extract_ip output of
                None \<Rightarrow> Inl (IndexError, w)
              | Some ip \<Rightarrow>
                  (let dest_file = target_file mode dest_file0 ip in
                   case open_error w dest_file of
                     Some e \<Rightarrow>
                       Inr (w\<lparr>console := console w @
                          [Secho (''Could not open output file '' @ [CHR 0x27] @ dest_file
                                  @ [CHR 0x27] @ '' for writing. Output would have been:''
                                  @ [CHR 0x0A] @ output) (Some ''error''),
                           Secho (''Here is the error for opening the output file:'' @ e)
                                 (Some ''error'')]\<rparr>)
                   | None \<Rightarrow>
                       Inr (w\<lparr>writes := writes w @ [(dest_file, output)],
                              console := console w @
                                [Secho (ip @ '' output appended to: '' @ dest_file) None]\<rparr>)))))"

subsection \<open>The click context object\<close>

text \<open>\<open>ctx.obj['conn']\<close> and \<open>ctx.obj\<close>: \<open>main\<close> stores the hosts and the connection
  parameters, the option callbacks store \<open>out\<close> and \<open>at_time\<close>.\<close>

record conn =
  username :: string
  password :: string
  port :: int
  session_timeout :: int
  connect_timeout :: int

record ctx_obj =
  hosts :: "string list"
  conn :: conn
  out :: "(string \<times> string) option"
  at_time :: "string option"

subsection \<open>write\_validate\<close>

text \<open>click hands the callback the two strings of \<open>-w\<close> (\<open>nargs=2\<close>), or the default
  pair when the option is absent; a pair always has both elements, so the IndexError
  branch is not reachable.\<close>

definition write_validate :: "ctx_obj \<Rightarrow> string \<times> string \<Rightarrow> py_error + ctx_obj" where
  "write_validate ctx v =
     (if v \<noteq> (''default'', ''default'')
      then (case v of (mode, dest_file) \<Rightarrow>
              if lower mode \<notin> set [''s'', ''single'', ''m'', ''multiple'']
              then Inl (BadParameter (''The first argument of the -w/--write ''
                     @ ''option must specifies whether to write''
                     @ '' to one file per device, or all device''
                     @ '' output to a single file. Valid options''
                     @ '' are '' @ [CHR 0x22] @ ''s'' @ [CHR 0x22] @ '', '' @ [CHR 0x22] @ ''single''
                     @ [CHR 0x22] @ '', '' @ [CHR 0x22] @ ''m'' @ [CHR 0x22] @ '', and ''
                     @ [CHR 0x22] @ ''multiple'' @ [CHR 0x22]))
              else Inr (ctx\<lparr>out := Some (lower mode, dest_file)\<rparr>))
      else Inr (ctx\<lparr>out := None\<rparr>))"

subsection \<open>at\_time\_validate\<close>

text \<open>The fragment of regular expressions the two patterns use: a character class, a
  sequence, an optional part. \<open>rmatch r s\<close> lists what is left of \<open>s\<close> after each way of
  matching \<open>r\<close> at its start; \<open>re_search\<close> tries every start position, as \<open>re.search\<close>
  does, and says whether a match object comes back.\<close>

datatype regex = Cls string | Seq regex regex | Opt regex

fun rmatch :: "regex \<Rightarrow> string \<Rightarrow> string list" where
  "rmatch (Cls cs) [] = []"
| "rmatch (Cls cs) (x # xs) = (if x \<in> set cs then [xs] else [])"
| "rmatch (Seq a b) s = concat (map (rmatch b) (rmatch a s))"
| "rmatch (Opt a) s = rmatch a s @ [s]"

fun re_search :: "regex \<Rightarrow> string \<Rightarrow> bool" where
  "re_search r [] = (rmatch r [] \<noteq> [])"
| "re_search r (c # cs) = (rmatch r (c # cs) \<noteq> [] \<or> re_search r cs)"

definition digit :: regex where
  "digit = Cls ''0123456789''"

text \<open>\<open>x{1,2}\<close> is one \<open>x\<close> and an optional second; \<open>\d{4}\<close> is four digits.\<close>

definition rep_1_2 :: "regex \<Rightarrow> regex" where
  "rep_1_2 r = Seq r (Opt r)"

text \<open>A pattern written as a row of parts is their sequence.\<close>

fun seqs :: "regex \<Rightarrow> regex list \<Rightarrow> regex" where
  "seqs r [] = r"
| "seqs r (x # xs) = Seq r (seqs x xs)"

text \<open>\<open>([0-2]\d)(:[0-5]\d){1,2}\<close>\<close>

definition time_re :: regex where
  "time_re = seqs (seqs (Cls ''012'') [digit])
               [rep_1_2 (seqs (Cls '':'') [Cls ''012345'', digit])]"

text \<open>\<open>\d{4}-[01]\d-[0-3]\d [0-2]\d:[0-5]\d(:[0-5]\d)?\<close>\<close>

definition date_time_re :: regex where
  "date_time_re =
     seqs digit [digit, digit, digit, Cls ''-'', Cls ''01'', digit, Cls ''-'',
                 Cls ''0123'', digit, Cls '' '', Cls ''012'', digit, Cls '':'',
                 Cls ''012345'', digit, Opt (seqs (Cls '':'') [Cls ''012345'', digit])]"

definition at_time_validate :: "ctx_obj \<Rightarrow> string option \<Rightarrow> py_error + ctx_obj" where
  "at_time_validate ctx v =
     (case v of
        None \<Rightarrow> Inr (ctx\<lparr>at_time := None\<rparr>)
      | Some s \<Rightarrow>
          if \<not> re_search time_re s \<and> \<not> re_search date_time_re s
          then Inl (BadParameter (''A commit at time must be in one of the ''
                 @ ''two formats: '' @ [CHR 0x27] @ ''hh:mm[:ss]'' @ [CHR 0x27] @ '' or ''
                 @ [CHR 0x27] @ ''yyyy-mm-dd hh:mm[:ss]'' @ [CHR 0x27] @ '' (seconds are ''
                 @ ''optional).''))
          else Inr (ctx\<lparr>at_time := Some s\<rparr>))"

subsection \<open>AliasedGroup.get\_command\<close>

text \<open>A click group keeps its subcommands in a dictionary from name to command, here an
  association list; \<open>click.Group.get_command\<close> looks the name up and
  \<open>list_commands\<close> returns the sorted names. \<open>ctx.fail\<close> raises a UsageError.\<close>

definition list_commands :: "(string \<times> 'c) list \<Rightarrow> string list" where
  "list_commands commands = sort (map fst commands)"

definition get_command :: "(string \<times> 'c) list \<Rightarrow> string \<Rightarrow> py_error + 'c option" where
  "get_command commands cmd_name =
     (case map_of commands cmd_name of
        Some rv \<Rightarrow> Inr (Some rv)
      | None \<Rightarrow>
          (let matches = filter (prefix cmd_name) (list_commands commands) in
           if matches = [] then Inr None
           else if length matches = 1 then Inr (map_of commands (hd matches))
           else Inl (UsageError (''Command ambiguous, could be: ''
                                 @ join '', '' (sort matches)))))"

subsection \<open>The subcommand handlers\<close>

text \<open>The positional arguments every handler gives to \<open>wrap.open_connection\<close>.\<close>

definition conn_call :: "ctx_obj \<Rightarrow> wrap_function \<Rightarrow> pyval list option \<Rightarrow> string \<Rightarrow> oc_call" where
  "conn_call ctx f args ip =
     \<lparr>oc_ip = ip,
      oc_username = username (conn ctx),
      oc_password = password (conn ctx),
      oc_function = f,
      oc_args = args,
      oc_write = out ctx,
      oc_connect_timeout = connect_timeout (conn ctx),
      oc_session_timeout = session_timeout (conn ctx),
      oc_port = port (conn ctx)\<rparr>"

definition log_event :: "event \<Rightarrow> world \<Rightarrow> world" where
  "log_event e w = w\<lparr>trace := trace w @ [e]\<rparr>"

text \<open>\<open>for ip in ctx.obj['hosts']: mp_pool.apply_async(wrap.open_connection, args=...,
  callback=write_out)\<close>: the loop only hands the tasks to the pool.\<close>

fun apply_async_all :: "(string \<Rightarrow> oc_call) \<Rightarrow> string list \<Rightarrow> world \<Rightarrow> world" where
  "apply_async_all mk [] w = w"
| "apply_async_all mk (ip # ips) w = apply_async_all mk ips (log_event (ApplyAsync (mk ip)) w)"

text \<open>The body the nine pooled handlers share: create the pool with twice the number
  of cores, submit, close, join.\<close>

definition pooled :: "nat \<Rightarrow> (string \<Rightarrow> oc_call) \<Rightarrow> string list \<Rightarrow> world \<Rightarrow> world" where
  "pooled ncpu mk hs w =
     log_event PoolJoin (log_event PoolClose
       (apply_async_all mk hs (log_event (PoolCreate (ncpu * 2)) w)))"

definition opt_str :: "string option \<Rightarrow> pyval" where
  "opt_str v = (case v of None \<Rightarrow> PNone | Some s \<Rightarrow> PStr s)"

definition opt_int :: "int option \<Rightarrow> pyval" where
  "opt_int v = (case v of None \<Rightarrow> PNone | Some i \<Rightarrow> PInt i)"

definition compare :: "nat \<Rightarrow> ctx_obj \<Rightarrow> string \<Rightarrow> world \<Rightarrow> world" where
  "compare ncpu ctx commands w =
     pooled ncpu (conn_call ctx WCompare (Some [PStr commands])) (hosts ctx) w"

definition pull :: "nat \<Rightarrow> ctx_obj \<Rightarrow> string \<Rightarrow> string \<Rightarrow> bool \<Rightarrow> world \<Rightarrow> world" where
  "pull ncpu ctx source destination progress w =
     pooled ncpu (conn_call ctx WPull (Some [PStr source, PStr destination, PBool progress]))
       (hosts ctx) w"

definition push :: "nat \<Rightarrow> ctx_obj \<Rightarrow> string \<Rightarrow> string \<Rightarrow> bool \<Rightarrow> world \<Rightarrow> world" where
  "push ncpu ctx source destination progress w =
     pooled ncpu (conn_call ctx WPush (Some [PStr source, PStr destination, PBool progress]))
       (hosts ctx) w"

definition operational ::
  "nat \<Rightarrow> ctx_obj \<Rightarrow> string \<Rightarrow> string \<Rightarrow> string option \<Rightarrow> world \<Rightarrow> world" where
  "operational ncpu ctx commands format xpath w =
     pooled ncpu (conn_call ctx WCommand (Some [PStr commands, PStr format, opt_str xpath]))
       (hosts ctx) w"

definition device_info :: "nat \<Rightarrow> ctx_obj \<Rightarrow> world \<Rightarrow> world" where
  "device_info ncpu ctx w = pooled ncpu (conn_call ctx WDeviceInfo None) (hosts ctx) w"

definition diff_config :: "nat \<Rightarrow> ctx_obj \<Rightarrow> string \<Rightarrow> string \<Rightarrow> world \<Rightarrow> world" where
  "diff_config ncpu ctx second_host mode w =
     pooled ncpu (conn_call ctx WDiffConfig (Some [PStr second_host, PStr mode])) (hosts ctx) w"

definition health_check :: "nat \<Rightarrow> ctx_obj \<Rightarrow> world \<Rightarrow> world" where
  "health_check ncpu ctx w = pooled ncpu (conn_call ctx WHealthCheck (Some [])) (hosts ctx) w"

definition interface_errors :: "nat \<Rightarrow> ctx_obj \<Rightarrow> world \<Rightarrow> world" where
  "interface_errors ncpu ctx w =
     pooled ncpu (conn_call ctx WInterfaceErrors (Some [])) (hosts ctx) w"

definition shell :: "nat \<Rightarrow> ctx_obj \<Rightarrow> string \<Rightarrow> world \<Rightarrow> world" where
  "shell ncpu ctx commands w =
     pooled ncpu (conn_call ctx WShell (Some [PStr commands])) (hosts ctx) w"

text \<open>\<open>commit\<close> calls the provider in the loop itself and routes the value it returns
  at once: \<open>write_out(wrap.open_connection(...))\<close>. An exception of \<open>write_out\<close> leaves
  the loop and the handler. The provider is the parameter \<open>oc\<close>, from the arguments of
  the call to the pair (destination, output) it returns.\<close>

type_synonym provider = "oc_call \<Rightarrow> (string \<times> string) option \<times> string"

fun commit_loop :: "provider \<Rightarrow> (string \<Rightarrow> oc_call) \<Rightarrow> string list \<Rightarrow> world \<Rightarrow> world result" where
  "commit_loop oc mk [] w = Inr w"
| "commit_loop oc mk (ip # ips) w =
     (case write_out (oc (mk ip)) (log_event (DirectCall (mk ip)) w) of
        Inl e \<Rightarrow> Inl e
      | Inr w' \<Rightarrow> commit_loop oc mk ips w')"

definition commit ::
  "provider \<Rightarrow> nat \<Rightarrow> ctx_obj \<Rightarrow> string \<Rightarrow> bool \<Rightarrow> bool \<Rightarrow> bool \<Rightarrow> string option \<Rightarrow> int option
     \<Rightarrow> string option \<Rightarrow> world \<Rightarrow> world result" where
  "commit oc ncpu ctx commands blank check sync comment confirm at_time_arg w =
     (if \<not> blank \<and> commands = ''annotate system '' @ [CHR 0x22, CHR 0x22]
      then Inl (BadParameter ''--blank and the commands argument cannot both be omitted.'', w)
      else
        (case commit_loop oc
                (conn_call ctx WCommit
                   (Some [PStr commands, PBool check, PBool sync, opt_str comment,
                          opt_int confirm, opt_str (at_time ctx), PBool blank]))
                (hosts ctx) (log_event (PoolCreate (ncpu * 2)) w) of
           Inl e \<Rightarrow> Inl e
         | Inr w' \<Rightarrow> Inr (log_event PoolJoin (log_event PoolClose w'))))"

text \<open>Reading a trace: the provider calls a handler asked for, and those it gave to
  the pool.\<close>

fun provider_calls :: "event list \<Rightarrow> oc_call list" where
  "provider_calls [] = []"
| "provider_calls (ApplyAsync c # es) = c # provider_calls es"
| "provider_calls (DirectCall c # es) = c # provider_calls es"
| "provider_calls (_ # es) = provider_calls es"

fun submitted :: "event list \<Rightarrow> oc_call list" where
  "submitted [] = []"
| "submitted (ApplyAsync c # es) = c # submitted es"
| "submitted (_ # es) = submitted es"

subsection \<open>Inputs for the examples\<close>

text \<open>A context as \<open>main\<close> builds it with the default port and timeouts, a world in
  which nothing has happened yet and every file opens, and a provider that returns the
  destination it was handed together with a fixed payload.\<close>

definition example_ctx :: "string list \<Rightarrow> (string \<times> string) option \<Rightarrow> ctx_obj" where
  "example_ctx hs dest =
     \<lparr>hosts = hs,
      conn = \<lparr>username = ''admin'', password = ''secret'', port = 22,
              session_timeout = 300, connect_timeout = 5\<rparr>,
      out = dest,
      at_time = None\<rparr>"

definition quiet_world :: world where
  "quiet_world = \<lparr>open_error = Map.empty, writes = [], console = [], trace = []\<rparr>"

definition canned_provider :: "string \<Rightarrow> provider" where
  "canned_provider payload c = (oc_write c, payload)"

section \<open>Properties\<close>

subsection \<open>Facts about split\<close>

lemma split_aux_single: "\<not> sublist sep s \<Longrightarrow> split_aux sep acc s = [rev acc @ s]"
  by (induction s arbitrary: acc) (auto simp: sublist_Cons_right)






lemma extract_ip_no_marker: "\<not> sublist ''device: '' output \<Longrightarrow> extract_ip output = None"
  by (simp add: extract_ip_def split_str_def split_aux_single)



subsection \<open>Facts about posixpath\<close>













subsection \<open>Facts about the resolver and the handlers\<close>

lemma sort_filter_sorted_list:
  fixes xs :: "string list"
  assumes "distinct xs"
  shows "sort (filter P (sort xs)) = sorted_list_of_set {x \<in> set xs. P x}"
proof -
  let ?ys = "filter P (sort xs)"
  have s: "sorted ?ys" by (rule sorted_wrt_filter) simp
  have d: "distinct ?ys" using assms by simp
  have "sorted_list_of_set (set ?ys) = ?ys"
    using s d by (rule sorted_list_of_set.idem_if_sorted_distinct)
  moreover have "set ?ys = {x \<in> set xs. P x}" by auto
  moreover have "sort ?ys = ?ys" using s by (rule sorted_sort_id)
  ultimately show ?thesis by simp
qed

lemma matches_set:
  "set (filter (prefix p) (list_commands commands)) = {x \<in> fst ` set commands. prefix p x}"
  by (auto simp: list_commands_def)

lemma matches_distinct:
  "distinct (map fst commands) \<Longrightarrow> distinct (filter (prefix p) (list_commands commands))"
  by (simp add: list_commands_def)


lemmas handler_defs = commit_def conn_call_def log_event_def example_ctx_def quiet_world_def
  canned_provider_def write_out_def extract_ip_def split_str_def strip_def is_space_def
  target_file_def path_split_def path_join_def rfind_slash_Suc_def rstrip_slash_def
  opt_str_def opt_int_def Let_def

lemma apply_async_all_trace:
  "trace (apply_async_all mk hs w) = trace w @ map (\<lambda>ip. ApplyAsync (mk ip)) hs"
  by (induction hs arbitrary: w) (simp_all add: log_event_def)

lemma provider_calls_append:
  "provider_calls (es @ fs) = provider_calls es @ provider_calls fs"
  by (induction es rule: provider_calls.induct) simp_all

lemma submitted_append: "submitted (es @ fs) = submitted es @ submitted fs"
  by (induction es rule: submitted.induct) simp_all

lemma provider_calls_async: "provider_calls (map (\<lambda>ip. ApplyAsync (mk ip)) hs) = map mk hs"
  by (induction hs) simp_all

lemma submitted_async: "submitted (map (\<lambda>ip. ApplyAsync (mk ip)) hs) = map mk hs"
  by (induction hs) simp_all

lemma provider_calls_direct: "provider_calls (map (\<lambda>ip. DirectCall (mk ip)) hs) = map mk hs"
  by (induction hs) simp_all

lemma submitted_direct: "submitted (map (\<lambda>ip. DirectCall (mk ip)) hs) = []"
  by (induction hs) simp_all

lemma pooled_trace:
  "trace (pooled ncpu mk hs w) =
     trace w @ [PoolCreate (ncpu * 2)] @ map (\<lambda>ip. ApplyAsync (mk ip)) hs @ [PoolClose, PoolJoin]"
  by (simp add: pooled_def log_event_def apply_async_all_trace)

lemma pooled_submits_each_host:
  "submitted (trace (pooled ncpu mk hs w)) = submitted (trace w) @ map mk hs"
  by (simp add: pooled_trace submitted_append submitted_async)

lemma write_out_trace:
  "write_out r w = Inr w' \<Longrightarrow> trace w' = trace w"
  by (cases r) (auto simp: write_out_def Let_def split: option.splits)

lemma write_out_raises:
  "write_out r w = Inl (e, w') \<Longrightarrow> w' = w \<and> e = IndexError"
  by (cases r) (auto simp: write_out_def Let_def split: option.splits)

lemma commit_loop_trace:
  "\<exists>k \<le> length hs.
     trace (case_sum snd id (commit_loop oc mk hs w)) =
       trace w @ map (\<lambda>ip. DirectCall (mk ip)) (take k hs)
     \<and> (\<not> isl (commit_loop oc mk hs w) \<longrightarrow> k = length hs)"
proof (induction hs arbitrary: w)
  case Nil
  then show ?case by simp
next
  case (Cons ip ips)
  let ?w1 = "log_event (DirectCall (mk ip)) w"
  show ?case
  proof (cases "write_out (oc (mk ip)) ?w1")
    case (Inl a)
    obtain e w' where a: "a = (e, w')" by (cases a)
    then have "w' = ?w1" using Inl write_out_raises by blast
    then have "trace (case_sum snd id (commit_loop oc mk (ip # ips) w)) =
        trace w @ map (\<lambda>ip. DirectCall (mk ip)) (take 1 (ip # ips))"
      using Inl a by (simp add: log_event_def)
    moreover have "isl (commit_loop oc mk (ip # ips) w)" using Inl by simp
    ultimately show ?thesis by (intro exI[of _ 1]) simp
  next
    case (Inr w')
    then have t: "trace w' = trace w @ [DirectCall (mk ip)]"
      using write_out_trace by (fastforce simp: log_event_def)
    obtain k where k: "k \<le> length ips"
      "trace (case_sum snd id (commit_loop oc mk ips w')) =
         trace w' @ map (\<lambda>ip. DirectCall (mk ip)) (take k ips)"
      "\<not> isl (commit_loop oc mk ips w') \<longrightarrow> k = length ips"
      using Cons.IH[of w'] by blast
    show ?thesis using k t Inr by (intro exI[of _ "Suc k"]) simp
  qed
qed

lemma commit_loop_submits_nothing:
  "submitted (trace (case_sum snd id (commit_loop oc mk hs w))) = submitted (trace w)"
  using commit_loop_trace[of hs oc mk w]
  by (auto simp: submitted_append submitted_direct)

lemma commit_loop_calls_each_host:
  assumes "commit_loop oc mk hs w = Inr w'"
  shows "provider_calls (trace w') = provider_calls (trace w) @ map mk hs"
  using commit_loop_trace[of hs oc mk w] assms
  by (auto simp: provider_calls_append provider_calls_direct)

lemma at_time_examples:
  "\<not> isl (at_time_validate ctx (Some ''14:30''))"
  "\<not> isl (at_time_validate ctx (Some ''14:30:00''))"
  "\<not> isl (at_time_validate ctx (Some ''2024-01-05 14:30''))"
  "\<not> isl (at_time_validate ctx (Some ''2024-01-05 14:30:45''))"
  "isl (at_time_validate ctx (Some ''2pm''))"
  "isl (at_time_validate ctx (Some ''14-30''))"
  "\<not> isl (at_time_validate ctx None)"
  by (simp_all add: at_time_validate_def time_re_def date_time_re_def digit_def rep_1_2_def)

lemma write_out_single_alias:
  "mode \<notin> {''m'', ''multiple''} \<Longrightarrow> mode' \<notin> {''m'', ''multiple''} \<Longrightarrow>
   write_out (Some (mode, p), output) w = write_out (Some (mode', p), output) w"
  by (simp add: write_out_def target_file_def split: option.split)

lemma write_out_multiple_alias:
  "write_out (Some (''m'', p), output) w = write_out (Some (''multiple'', p), output) w"
  by (simp add: write_out_def target_file_def split: option.split)

subsection \<open>The result router\<close>








text \<open>
  Claim C10. When the destination is a file and the payload does not contain the text
  \<open>device: \<close>, \<open>write_out\<close> raises IndexError and leaves the world as it was: nothing is
  written to a file and nothing is printed.
\<close>

theorem write_out_without_marker:
  "\<not> sublist ''device: '' output \<Longrightarrow>
   write_out (Some (mode, dest_file), output) w = Inl (IndexError, w)"
  by (simp add: write_out_def extract_ip_no_marker)

theorem write_out_without_marker_witness:
  "\<not> sublist ''device: '' ''Unable to connect to 10.0.0.2'' \<and>
   write_out (Some (''s'', ''/tmp/out.txt''), ''Unable to connect to 10.0.0.2'') quiet_world
     = Inl (IndexError, quiet_world)"
proof -
  have h: "\<not> sublist ''device: '' ''Unable to connect to 10.0.0.2''"
    by (simp add: sublist_Cons_right)
  show ?thesis using h write_out_without_marker [OF h] by simp
qed

subsection \<open>The validators\<close>

text \<open>
  Claim C5. \<open>re.search\<close> looks for the pattern anywhere in the value, so a value that
  only contains a time is accepted: \<open>01-05 14:30\<close>, which the claim lists as rejected,
  passes the validator and is stored as the commit time.
\<close>

theorem at_time_accepts_embedded_time:
  "at_time_validate ctx (Some ''01-05 14:30'') = Inr (ctx\<lparr>at_time := Some ''01-05 14:30''\<rparr>)"
  by (simp add: at_time_validate_def time_re_def digit_def rep_1_2_def)

text \<open>
  Claim C6. Against the claim as stated: the validator stores the lower-cased mode as it
  was typed, so \<open>s\<close> and \<open>single\<close> with the same path leave different values in
  \<open>ctx.obj['out']\<close>.
\<close>

theorem write_validate_aliases_differ:
  "write_validate (example_ctx [] None) (''s'', ''/tmp/out.txt'')
     \<noteq> write_validate (example_ctx [] None) (''single'', ''/tmp/out.txt'')"
  by (simp add: write_validate_def lower_def lower_char_def example_ctx_def)

text \<open>
  Claim C6, as amended. For a pair other than the default pair (which stands for the
  option being absent): when the lower-cased mode is one of s, single, m, multiple the
  validator stores the lower-cased mode with the path, otherwise it raises the
  parameter error; the default pair stores \<open>None\<close>, the terminal. \<open>write_out\<close> treats
  the stored modes s and single alike, and m and multiple alike.
\<close>

theorem write_validate_modes:
  assumes "v \<noteq> (''default'', ''default'')"
  shows "(lower (fst v) \<in> {''s'', ''single'', ''m'', ''multiple''} \<longrightarrow>
            write_validate ctx v = Inr (ctx\<lparr>out := Some (lower (fst v), snd v)\<rparr>))
       \<and> (lower (fst v) \<notin> {''s'', ''single'', ''m'', ''multiple''} \<longrightarrow>
            (\<exists>msg. write_validate ctx v = Inl (BadParameter msg)))
       \<and> write_validate ctx (''default'', ''default'') = Inr (ctx\<lparr>out := None\<rparr>)
       \<and> write_out (Some (''s'', p), output) w = write_out (Some (''single'', p), output) w
       \<and> write_out (Some (''m'', p), output) w = write_out (Some (''multiple'', p), output) w"
proof -
  have "write_out (Some (''s'', p), output) w = write_out (Some (''single'', p), output) w"
    by (rule write_out_single_alias) simp_all
  then show ?thesis
    using assms write_out_multiple_alias
    by (cases v) (simp add: write_validate_def)
qed

theorem write_validate_modes_witness:
  "(''Single'', ''/tmp/out.txt'') \<noteq> (''default'', ''default'')
   \<and> write_validate (example_ctx [] None) (''Single'', ''/tmp/out.txt'')
       = Inr (example_ctx [] (Some (''single'', ''/tmp/out.txt'')))
   \<and> (''bogus'', ''/tmp/out.txt'') \<noteq> (''default'', ''default'')
   \<and> isl (write_validate (example_ctx [] None) (''bogus'', ''/tmp/out.txt''))"
proof -
  have a: "(''Single'', ''/tmp/out.txt'') \<noteq> (''default'', ''default'')" by simp
  have b: "(''bogus'', ''/tmp/out.txt'') \<noteq> (''default'', ''default'')" by simp
  have l: "lower ''Single'' = ''single''" "lower ''bogus'' = ''bogus''"
    by (simp_all add: lower_def lower_char_def)
  show ?thesis
    using a b
      write_validate_modes [OF a, of "example_ctx [] None" "''/tmp/out.txt''" "''up''" quiet_world]
      write_validate_modes [OF b, of "example_ctx [] None" "''/tmp/out.txt''" "''up''" quiet_world]
    by (auto simp add: l example_ctx_def)
qed

subsection \<open>The command-name resolver\<close>

text \<open>
  Claim C4. With the registered names distinct, as the keys of a dictionary are:
  a name that is registered resolves to its own command; otherwise, with the set of
  registered names that start with the prefix, an empty set gives \<open>None\<close> (not found),
  a set of one name gives the command of that name, and a set of more than one name
  fails with the UsageError whose message lists all of them, sorted and joined by
  commas. With commit, compare and health registered, com is ambiguous between
  commit and compare, hea is health and xyz is not found.
\<close>

theorem get_command_resolves:
  assumes "distinct (map fst commands)"
  shows "(\<forall>c. map_of commands p = Some c \<longrightarrow> get_command commands p = Inr (Some c))
       \<and> (p \<notin> fst ` set commands \<longrightarrow> {x \<in> fst ` set commands. prefix p x} = {} \<longrightarrow>
            get_command commands p = Inr None)
       \<and> (\<forall>x. p \<notin> fst ` set commands \<longrightarrow> {x \<in> fst ` set commands. prefix p x} = {x} \<longrightarrow>
            (\<exists>c. map_of commands x = Some c \<and> get_command commands p = Inr (Some c)))
       \<and> (p \<notin> fst ` set commands \<longrightarrow> 1 < card {x \<in> fst ` set commands. prefix p x} \<longrightarrow>
            get_command commands p =
              Inl (UsageError (''Command ambiguous, could be: '' @
                     join '', '' (sorted_list_of_set {x \<in> fst ` set commands. prefix p x}))))"
proof -
  let ?ms = "filter (prefix p) (list_commands commands)"
  let ?M = "{x \<in> fst ` set commands. prefix p x}"
  have set_ms: "set ?ms = ?M" by (rule matches_set)
  have dist_ms: "distinct ?ms" using assms by (rule matches_distinct)
  have len_ms: "length ?ms = card ?M" using dist_ms set_ms by (metis distinct_card)
  have none: "map_of commands p = None" if "p \<notin> fst ` set commands"
    using that by (simp add: map_of_eq_None_iff)
  have exact: "get_command commands p = Inr (Some c)" if "map_of commands p = Some c" for c
    using that by (simp add: get_command_def)
  have zero: "get_command commands p = Inr None"
    if "p \<notin> fst ` set commands" "?M = {}"
  proof -
    have "?ms = []" using that(2) set_ms by (metis set_empty)
    then show ?thesis using none[OF that(1)] by (simp add: get_command_def)
  qed
  have one: "\<exists>c. map_of commands x = Some c \<and> get_command commands p = Inr (Some c)"
    if "p \<notin> fst ` set commands" "?M = {x}" for x
  proof -
    have "length ?ms = 1" using len_ms that(2) by simp
    then obtain y where y: "?ms = [y]" by (cases ?ms) auto
    then have "y = x" using set_ms that(2) by (metis list.set_intros(1) singletonD)
    have "x \<in> fst ` set commands" using that(2) by blast
    then obtain c where c: "map_of commands x = Some c"
      by (metis map_of_eq_None_iff not_None_eq)
    have "get_command commands p = Inr (map_of commands x)"
      using none[OF that(1)] y \<open>y = x\<close> by (simp add: get_command_def)
    then show ?thesis using c by simp
  qed
  have many: "get_command commands p =
      Inl (UsageError (''Command ambiguous, could be: '' @ join '', '' (sorted_list_of_set ?M)))"
    if "p \<notin> fst ` set commands" "1 < card ?M"
  proof -
    have l: "1 < length ?ms" using len_ms that(2) by simp
    then have ne: "?ms \<noteq> []" "length ?ms \<noteq> 1" by auto
    have "sort ?ms = sorted_list_of_set {x \<in> set (map fst commands). prefix p x}"
      unfolding list_commands_def using assms by (rule sort_filter_sorted_list)
    then have "sort ?ms = sorted_list_of_set ?M" by simp
    then show ?thesis using none[OF that(1)] ne by (simp add: get_command_def Let_def)
  qed
  show ?thesis using exact zero one many by blast
qed

theorem get_command_resolves_witness:
  "distinct (map fst [(''commit'', 1::nat), (''compare'', 2), (''health'', 3)])
   \<and> get_command [(''commit'', 1::nat), (''compare'', 2), (''health'', 3)] ''com''
       = Inl (UsageError ''Command ambiguous, could be: commit, compare'')
   \<and> get_command [(''commit'', 1::nat), (''compare'', 2), (''health'', 3)] ''hea'' = Inr (Some 3)
   \<and> get_command [(''commit'', 1::nat), (''compare'', 2), (''health'', 3)] ''xyz'' = Inr None
   \<and> get_command [(''commit'', 1::nat), (''compare'', 2), (''health'', 3)] ''commit'' = Inr (Some 1)"
proof -
  have d: "distinct (map fst [(''commit'', 1::nat), (''compare'', 2), (''health'', 3)])" by simp
  show ?thesis
    using d get_command_resolves [OF d, of "''commit''"]
    by (simp add: get_command_def list_commands_def Let_def)
qed

subsection \<open>The handlers\<close>

text \<open>
  Claim C9. A commit that is not blank and whose commands are the default text
  \<open>annotate system ""\<close> raises the parameter error and leaves the world as it was: no
  pool is created and the provider is not called for any host.
\<close>

theorem commit_without_commands_rejected:
  "\<not> blank \<Longrightarrow> commands = ''annotate system '' @ [CHR 0x22, CHR 0x22] \<Longrightarrow>
   commit oc ncpu ctx commands blank check sync comment confirm at_time_arg w
     = Inl (BadParameter ''--blank and the commands argument cannot both be omitted.'', w)"
  by (simp add: commit_def)

theorem commit_without_commands_rejected_witness:
  "commit (canned_provider ''Results from device: 10.0.0.1'') 4
     (example_ctx [''10.0.0.1'', ''10.0.0.2''] None)
     (''annotate system '' @ [CHR 0x22, CHR 0x22]) False False False None None None quiet_world
   = Inl (BadParameter ''--blank and the commands argument cannot both be omitted.'', quiet_world)
   \<and> provider_calls (trace quiet_world) = []"
  using commit_without_commands_rejected
    [of False "''annotate system '' @ [CHR 0x22, CHR 0x22]"
        "canned_provider ''Results from device: 10.0.0.1''" 4
        "example_ctx [''10.0.0.1'', ''10.0.0.2''] None" False False None None None quiet_world]
  by (simp add: quiet_world_def)

text \<open>
  Claim C1. \<open>commit\<close> calls the provider inside its loop and routes each value at once.
  With two hosts, a file destination and a payload without \<open>device: \<close>, the IndexError
  of \<open>write_out\<close> for the first host leaves the loop: the provider has been called for
  10.0.0.1 only, and the pool is never closed or joined. (Without such an error every
  host is called once, in order: \<open>commit_loop_calls_each_host\<close>; the pooled handlers
  hand every host to the pool: \<open>pooled_submits_each_host\<close>.)
\<close>

theorem commit_stops_at_routing_error:
  "commit (canned_provider ''Unable to connect to the device'') 4
     (example_ctx [''10.0.0.1'', ''10.0.0.2''] (Some (''s'', ''/tmp/out.txt'')))
     ''set system host-name r1'' False False False None None None quiet_world
   = Inl (IndexError,
          quiet_world\<lparr>trace :=
            [PoolCreate 8,
             DirectCall (conn_call (example_ctx [''10.0.0.1'', ''10.0.0.2'']
                                      (Some (''s'', ''/tmp/out.txt'')))
                           WCommit
                           (Some [PStr ''set system host-name r1'', PBool False, PBool False,
                                  PNone, PNone, PNone, PBool False])
                           ''10.0.0.1'')]\<rparr>)"
  by (simp add: handler_defs)

text \<open>
  Claim C2. \<open>commit\<close> creates the pool with twice the number of cores, closes and joins
  it, but gives it no task: the provider is called for one host after the other in the
  handler itself. \<open>compare\<close>, like the other eight handlers, gives the pool one task
  per host.
\<close>

theorem commit_bypasses_pool:
  "commit (canned_provider (''Results from device: r1'' @ [CHR 0x0A])) 4
     (example_ctx [''10.0.0.1'', ''10.0.0.2''] None)
     ''set system host-name r1'' False False False None None None quiet_world
   = Inr (quiet_world
       \<lparr>console := [Echo (''Results from device: r1'' @ [CHR 0x0A]),
                    Echo (''Results from device: r1'' @ [CHR 0x0A])],
        trace :=
          [PoolCreate 8,
           DirectCall (conn_call (example_ctx [''10.0.0.1'', ''10.0.0.2''] None) WCommit
                         (Some [PStr ''set system host-name r1'', PBool False, PBool False,
                                PNone, PNone, PNone, PBool False])
                         ''10.0.0.1''),
           DirectCall (conn_call (example_ctx [''10.0.0.1'', ''10.0.0.2''] None) WCommit
                         (Some [PStr ''set system host-name r1'', PBool False, PBool False,
                                PNone, PNone, PNone, PBool False])
                         ''10.0.0.2''),
           PoolClose, PoolJoin]\<rparr>)
   \<and> trace (compare 4 (example_ctx [''10.0.0.1'', ''10.0.0.2''] None)
               ''set system host-name r1'' quiet_world)
       = [PoolCreate 8,
          ApplyAsync (conn_call (example_ctx [''10.0.0.1'', ''10.0.0.2''] None) WCompare
                        (Some [PStr ''set system host-name r1'']) ''10.0.0.1''),
          ApplyAsync (conn_call (example_ctx [''10.0.0.1'', ''10.0.0.2''] None) WCompare
                        (Some [PStr ''set system host-name r1'']) ''10.0.0.2''),
          PoolClose, PoolJoin]"
  by (simp add: handler_defs compare_def pooled_def)

end
